theory Spec2Isabelle
  imports Main "HOL-Library.Word"
begin

unbundle bit_operations_syntax

section \<open>Errors\<close>

text \<open>
  Go's \<open>error\<close> values that the verifier can produce or pass on. A nil error is
  \<open>None :: err option\<close>. \<open>Errors\<close> is ozzo-validation's \<open>val.Errors\<close>
  (a map from field path to error) after \<open>Filter\<close>; the entries are kept in the order
  of the source's map literal (Go's map is unordered and prints its keys sorted), and
  are read by key with \<open>map_of\<close>.
\<close>

datatype err =
    ErrRequired                     \<comment> \<open>validation.ErrRequired: cannot be blank\<close>
  | ErrInInvalid                    \<comment> \<open>validation.ErrInInvalid: must be a valid value\<close>
  | ErrLengthInvalid nat            \<comment> \<open>validation.ErrLengthInvalid: the length must be exactly n\<close>
  | ErrMaxLessEqualThanRequired int \<comment> \<open>validation.ErrMaxLessEqualThanRequired: must be no greater than n\<close>
  | ErrSyntax string                \<comment> \<open>strconv.NumError with strconv.ErrSyntax, for the input\<close>
  | ErrRange string                 \<comment> \<open>strconv.NumError with strconv.ErrRange, for the input\<close>
  | ErrContractCall                 \<comment> \<open>identity.ErrContractCall\<close>
  | ErrOther string                 \<comment> \<open>errors.New(text)\<close>
  | Wrapped string err              \<comment> \<open>fmt.Errorf("text: %w", err)\<close>
  | Errors "(string \<times> err) list"    \<comment> \<open>val.Errors\<close>

text \<open>\<open>errors.Is(err, target)\<close> for a target that is a plain sentinel: walks the
  chain of wrapped errors.\<close>

fun errors_Is :: "err option \<Rightarrow> err \<Rightarrow> bool" where
  "errors_Is None target = False"
| "errors_Is (Some (Wrapped msg e)) target =
     (Wrapped msg e = target \<or> errors_Is (Some e) target)"
| "errors_Is (Some e) target = (e = target)"

text \<open>A Go call either returns or panics (index out of range, nil dereference).\<close>

datatype 'a exec = Panics | Returns 'a

section \<open>Time\<close>

text \<open>
  A \<open>time.Time\<close> in UTC, as its civil date and the nanoseconds since midnight.
  The zero value is 1 January of year 1, 00:00:00.
\<close>

record time =
  year :: int
  month :: nat
  day :: nat
  nsec :: nat

definition IsZero :: "time \<Rightarrow> bool" where
  "IsZero t = (year t = 1 \<and> month t = 1 \<and> day t = 1 \<and> nsec t = 0)"

definition isLeap :: "int \<Rightarrow> bool" where
  "isLeap y = (y mod 4 = 0 \<and> (y mod 400 = 0 \<or> y mod 100 \<noteq> 0))"

text \<open>
  \<open>t.AddDate(years, 0, 0)\<close>, the only form the verifier calls. Go rebuilds the date
  from year + years, the same month and day, and normalises it as \<open>time.Date\<close> does:
  29 February of a year that is not a leap year becomes 1 March.
\<close>

definition AddDate :: "time \<Rightarrow> int \<Rightarrow> time" where
  "AddDate t years =
     (let y = year t + years
      in if month t = 2 \<and> day t = 29 \<and> \<not> isLeap y
         then t\<lparr>year := y, month := 3, day := 1\<rparr>
         else t\<lparr>year := y\<rparr>)"

section \<open>The validation library (ozzo-validation v4)\<close>

text \<open>
  The values the verifier hands to \<open>val.Validate\<close> as \<open>interface{}\<close>: a nil
  pointer or nil interface, a string, an integer of any width, a \<open>time.Time\<close>, a
  slice, and any other non-nil struct (a pointer to one is dereferenced by the rules).
\<close>

datatype val =
    VNil
  | VString string
  | VInt int
  | VTime time
  | VSlice "val list"
  | VStruct

type_synonym rule = "val \<Rightarrow> err option"

text \<open>\<open>val.IsEmpty\<close>: by reflection kind.\<close>

fun IsEmpty :: "val \<Rightarrow> bool" where
  "IsEmpty VNil = True"
| "IsEmpty (VString s) = (length s = 0)"
| "IsEmpty (VInt i) = (i = 0)"
| "IsEmpty (VTime t) = IsZero t"
| "IsEmpty (VSlice xs) = (length xs = 0)"
| "IsEmpty VStruct = False"

text \<open>\<open>val.Validate(value, rules...)\<close>: the first error of the rules in order. None
  of the values above implements \<open>Validatable\<close>, so nothing runs after the rules.\<close>

fun Validate :: "val \<Rightarrow> rule list \<Rightarrow> err option" where
  "Validate v [] = None"
| "Validate v (r # rs) = (case r v of Some e \<Rightarrow> Some e | None \<Rightarrow> Validate v rs)"

definition Required :: rule where
  "Required v = (if IsEmpty v then Some ErrRequired else None)"

text \<open>\<open>val.In(elements...)\<close>: an empty value passes; otherwise the value must be
  \<open>reflect.DeepEqual\<close> to an element.\<close>

definition In :: "val list \<Rightarrow> rule" where
  "In elements v =
     (if IsEmpty v then None
      else if v \<in> set elements then None
      else Some ErrInInvalid)"

text \<open>\<open>val.When(condition, rules...)\<close> with no \<open>Else\<close>.\<close>

definition When :: "bool \<Rightarrow> rule list \<Rightarrow> rule" where
  "When condition rules v = (if condition then Validate v rules else Validate v [])"

text \<open>\<open>val.Max(threshold)\<close> (named \<open>Max_rule\<close> here) for an integer threshold: an empty value (so also the
  integer 0) passes; otherwise the value must be an integer no greater than it.\<close>

definition Max_rule :: "int \<Rightarrow> rule" where
  "Max_rule threshold v =
     (if IsEmpty v then None
      else case v of
        VInt i \<Rightarrow> if i \<le> threshold then None else Some (ErrMaxLessEqualThanRequired threshold)
      | _ \<Rightarrow> Some (ErrOther ''cannot convert to int64''))"

text \<open>\<open>val.Length(min, max)\<close>: an empty value passes; the error of \<open>min = max\<close>
  is \<open>ErrLengthInvalid\<close>.\<close>

definition LengthOfValue :: "val \<Rightarrow> nat option" where
  "LengthOfValue v =
     (case v of VString s \<Rightarrow> Some (length s) | VSlice xs \<Rightarrow> Some (length xs) | _ \<Rightarrow> None)"

definition Length :: "nat \<Rightarrow> nat \<Rightarrow> rule" where
  "Length mn mx v =
     (if IsEmpty v then None
      else case LengthOfValue v of
        None \<Rightarrow> Some (ErrOther ''cannot get the length'')
      | Some l \<Rightarrow>
          if (mn > 0 \<and> l < mn) \<or> (mx > 0 \<and> l > mx) \<or> (mn = 0 \<and> mx = 0 \<and> l > 0)
          then Some (ErrLengthInvalid mn)
          else None)"

text \<open>
  A \<open>val.Errors\<close> value before \<open>Filter\<close>: the map may hold nil errors. \<open>put\<close> is the
  assignment \<open>es[field] = e\<close>; \<open>Filter\<close> deletes the nil entries and returns nil when
  none is left.
\<close>

type_synonym errors = "(string \<times> err option) list"

fun put :: "string \<Rightarrow> err option \<Rightarrow> errors \<Rightarrow> errors" where
  "put k e [] = [(k, e)]"
| "put k e ((k', e') # es) = (if k' = k then (k, e) # es else (k', e') # put k e es)"

fun kept :: "errors \<Rightarrow> (string \<times> err) list" where
  "kept [] = []"
| "kept ((k, None) # es) = kept es"
| "kept ((k, Some e) # es) = (k, e) # kept es"

definition Filter :: "errors \<Rightarrow> err option" where
  "Filter es = (if kept es = [] then None else Some (Errors (kept es)))"

section \<open>strconv.ParseInt\<close>

text \<open>
  \<open>strconv.ParseInt(s, 10, 64)\<close>: an optional sign, then one or more decimal digits
  (no underscores in base 10); a value outside the range of int64 is a range error.
\<close>

definition isDigit :: "char \<Rightarrow> bool" where
  "isDigit c = ((48::nat) \<le> of_char c \<and> (of_char c :: nat) \<le> 57)"

definition digitsValue :: "string \<Rightarrow> int" where
  "digitsValue ds = foldl (\<lambda>n c. 10 * n + (of_char c - 48)) 0 ds"

definition ParseInt :: "string \<Rightarrow> err + 64 word" where
  "ParseInt s =
     (if s = [] then Inl (ErrSyntax s)
      else
        let neg = (hd s = CHR ''-'');
            ds = (if hd s = CHR ''+'' \<or> hd s = CHR ''-'' then tl s else s)
        in if ds = [] \<or> \<not> list_all isDigit ds then Inl (ErrSyntax s)
           else
             let un = digitsValue ds
             in if \<not> neg \<and> un \<ge> 2 ^ 63 then Inl (ErrRange s)
                else if neg \<and> un > 2 ^ 63 then Inl (ErrRange s)
                else Inr (if neg then - word_of_int un else word_of_int un))"

section \<open>crypto/sha256 and encoding/hex\<close>

text \<open>
  \<open>sha256.Sum256\<close> (FIPS 180-4) over a byte sequence, and \<open>hex.EncodeToString\<close>
  (lower-case digits). A Go string is its bytes, as a HOL \<open>string\<close> is.
\<close>

type_synonym byte = "8 word"

text \<open>The round constants and the initial hash value, in decimal.\<close>

definition K256 :: "32 word list" where
  "K256 = [
      1116352408, 1899447441, 3049323471, 3921009573,
      961987163, 1508970993, 2453635748, 2870763221,
      3624381080, 310598401, 607225278, 1426881987,
      1925078388, 2162078206, 2614888103, 3248222580,
      3835390401, 4022224774, 264347078, 604807628,
      770255983, 1249150122, 1555081692, 1996064986,
      2554220882, 2821834349, 2952996808, 3210313671,
      3336571891, 3584528711, 113926993, 338241895,
      666307205, 773529912, 1294757372, 1396182291,
      1695183700, 1986661051, 2177026350, 2456956037,
      2730485921, 2820302411, 3259730800, 3345764771,
      3516065817, 3600352804, 4094571909, 275423344,
      430227734, 506948616, 659060556, 883997877,
      958139571, 1322822218, 1537002063, 1747873779,
      1955562222, 2024104815, 2227730452, 2361852424,
      2428436474, 2756734187, 3204031479, 3329325298]"

type_synonym digest = "32 word \<times> 32 word \<times> 32 word \<times> 32 word \<times> 32 word \<times> 32 word \<times> 32 word \<times> 32 word"

definition init256 :: digest where
  "init256 = (1779033703, 3144134277, 1013904242, 2773480762,
              1359893119, 2600822924, 528734635, 1541459225)"

definition be32 :: "byte list \<Rightarrow> 32 word" where
  "be32 bs = foldl (\<lambda>w b. push_bit 8 w OR ucast b) 0 bs"

definition bytes32 :: "32 word \<Rightarrow> byte list" where
  "bytes32 w = [ucast (drop_bit 24 w), ucast (drop_bit 16 w), ucast (drop_bit 8 w), ucast w]"

definition bytes64 :: "64 word \<Rightarrow> byte list" where
  "bytes64 w = map (\<lambda>i. ucast (drop_bit (8 * (7 - i)) w)) [0..<8]"

definition pad256 :: "byte list \<Rightarrow> byte list" where
  "pad256 msg =
     msg @ [0x80] @ replicate ((119 - length msg mod 64) mod 64) 0
         @ bytes64 (word_of_nat (8 * length msg))"

primrec chunks :: "nat \<Rightarrow> nat \<Rightarrow> 'a list \<Rightarrow> 'a list list" where
  "chunks 0 n xs = []"
| "chunks (Suc k) n xs = take n xs # chunks k n (drop n xs)"

definition schedule :: "byte list \<Rightarrow> 32 word list" where
  "schedule block =
     foldl (\<lambda>w i.
         let s0 = word_rotr 7 (w ! (i - 15)) XOR word_rotr 18 (w ! (i - 15))
                    XOR drop_bit 3 (w ! (i - 15));
             s1 = word_rotr 17 (w ! (i - 2)) XOR word_rotr 19 (w ! (i - 2))
                    XOR drop_bit 10 (w ! (i - 2))
         in w @ [w ! (i - 16) + s0 + w ! (i - 7) + s1])
       (map be32 (chunks 16 4 block)) [16..<64]"

definition round256 :: "32 word list \<Rightarrow> digest \<Rightarrow> nat \<Rightarrow> digest" where
  "round256 w st i =
     (case st of (a, b, c, d, e, f, g, h) \<Rightarrow>
        let S1 = word_rotr 6 e XOR word_rotr 11 e XOR word_rotr 25 e;
            ch = (e AND f) XOR (NOT e AND g);
            t1 = h + S1 + ch + K256 ! i + w ! i;
            S0 = word_rotr 2 a XOR word_rotr 13 a XOR word_rotr 22 a;
            mj = (a AND b) XOR (a AND c) XOR (b AND c);
            t2 = S0 + mj
        in (t1 + t2, a, b, c, d + t1, e, f, g))"

definition block256 :: "digest \<Rightarrow> byte list \<Rightarrow> digest" where
  "block256 hs block =
     (case (hs, foldl (round256 (schedule block)) hs [0..<64]) of
        ((h0, h1, h2, h3, h4, h5, h6, h7), (a, b, c, d, e, f, g, h)) \<Rightarrow>
          (h0 + a, h1 + b, h2 + c, h3 + d, h4 + e, h5 + f, h6 + g, h7 + h))"

definition Sum256 :: "byte list \<Rightarrow> byte list" where
  "Sum256 msg =
     (case foldl block256 init256 (chunks (length (pad256 msg) div 64) 64 (pad256 msg)) of
        (h0, h1, h2, h3, h4, h5, h6, h7) \<Rightarrow>
          bytes32 h0 @ bytes32 h1 @ bytes32 h2 @ bytes32 h3 @
          bytes32 h4 @ bytes32 h5 @ bytes32 h6 @ bytes32 h7)"

definition hexdigit :: "nat \<Rightarrow> char" where
  "hexdigit n = (if n < 10 then char_of (48 + n) else char_of (87 + n))"

definition EncodeToString :: "byte list \<Rightarrow> string" where
  "EncodeToString bs = concat (map (\<lambda>b. [hexdigit (unat b div 16), hexdigit (unat b mod 16)]) bs)"

definition bytesOf :: "string \<Rightarrow> byte list" where
  "bytesOf s = map of_char s"

section \<open>Proofs, options and the verifier\<close>

text \<open>\<open>zkptypes.ZKProof\<close>: a pointer to the proof data (nil when absent) and the public
  signals (a nil slice and an empty one are both \<open>[]\<close>: every rule reads the length only).\<close>

record ProofData =
  A :: "string list"
  B :: "string list list"
  C :: "string list"
  Protocol :: string

record ZKProof =
  Proof :: "ProofData option"
  PubSignals :: "string list"

text \<open>The positions of the public signals (passport.go, the \<open>PubSignal\<close> constants).\<close>

abbreviation Nullifier :: nat where "Nullifier \<equiv> 0"
abbreviation Citizenship :: nat where "Citizenship \<equiv> 6"
abbreviation EventID :: nat where "EventID \<equiv> 9"
abbreviation EventData :: nat where "EventData \<equiv> 10"
abbreviation IdStateRoot :: nat where "IdStateRoot \<equiv> 11"
abbreviation Selector :: nat where "Selector \<equiv> 12"
abbreviation TimestampUpperBound :: nat where "TimestampUpperBound \<equiv> 14"
abbreviation IdentityCounterUpperBound :: nat where "IdentityCounterUpperBound \<equiv> 16"
abbreviation BirthdateUpperBound :: nat where "BirthdateUpperBound \<equiv> 18"
abbreviation ExpirationDateLowerBound :: nat where "ExpirationDateLowerBound \<equiv> 19"

abbreviation proofSelectorValue :: string where "proofSelectorValue \<equiv> ''39''"

text \<open>
  Modelled from the spec: the struct \<open>VerifyOptions\<close> that \<open>VerifyProof\<close> and
  \<open>validateBase\<close> read is not declared in the sources (the options file declares an
  earlier layout, with \<open>age\<close> a \<open>time.Time\<close> and an \<open>address\<close>). The spec's
  configuration has a correlation digest, a minimum age held as a number of years, a
  set of citizenship codes, an event id, a maximal identity count with a sentinel for
  unbounded, a maximal identity creation time and a root verifier. The field names
  and types are those passport.go uses: \<open>-v.opts.age\<close> is an argument of \<open>AddDate\<close>,
  so an integer; \<open>maxIdentitiesCount\<close> is compared with -1 and bounds an int64;
  \<open>maxIdentityCreationTimestamp\<close> is the argument of \<open>beforeDate\<close>; \<open>eventDataRule\<close>
  is passed as a rule; \<open>rootVerifier\<close> has the method \<open>VerifyRoot\<close>;
  \<open>verificationKeyFile\<close> is a file name. \<open>externalID\<close>, \<open>citizenships\<close> and
  \<open>eventID\<close> are as the options file declares them. A nil interface is \<open>None\<close>.
\<close>

record VerifyOptions =
  externalID :: string
  age :: int
  citizenships :: "val list"
  eventID :: string
  eventDataRule :: "rule option"
  rootVerifier :: "(string \<Rightarrow> err option) option"
  verificationKeyFile :: string
  maxIdentitiesCount :: "64 word"
  maxIdentityCreationTimestamp :: time

text \<open>A \<open>VerifyOption\<close> is a \<open>func(*VerifyOptions)\<close>: it updates the options it is
  given in place.\<close>

type_synonym VerifyOption = "VerifyOptions \<Rightarrow> VerifyOptions"

definition WithExternalID :: "string \<Rightarrow> VerifyOption" where
  "WithExternalID identifier opts =
     (let idHash = Sum256 (bytesOf identifier)
      in opts\<lparr>externalID := EncodeToString idHash\<rparr>)"

text \<open>\<open>WithCitizenships\<close> makes a slice of the same length and copies the codes into
  it in order.\<close>

definition WithCitizenships :: "string list \<Rightarrow> VerifyOption" where
  "WithCitizenships ctzs opts = opts\<lparr>citizenships := map VString ctzs\<rparr>"


text \<open>
  Modelled from the spec: the two-argument \<open>mergeOptions(opts, options...)\<close> that
  \<open>VerifyProof\<close> calls is not in the sources (the options file has the one-argument
  version, the same loop started from the zero value). The spec: a per-call
  configuration is derived by folding call-time mutators over the stored base
  configuration, later mutators overriding earlier ones field by field. \<open>opts\<close> is passed
  by value, so the loop updates a copy.
\<close>

definition mergeOptions :: "VerifyOptions \<Rightarrow> VerifyOption list \<Rightarrow> VerifyOptions" where
  "mergeOptions opts options = foldl (\<lambda>acc opt. opt acc) opts options"

record Verifier =
  verificationKey :: "byte list"
  opts :: VerifyOptions

text \<open>
  What a call takes from outside the verifier: the successive readings of
  \<open>time.Now().UTC()\<close> (the n-th reading of the call is \<open>clock n\<close>), the pairing check
  \<open>zkpverifier.VerifyGroth16\<close>, and the helpers of the package that are not in the
  sources: the rules \<open>beforeDate(point)\<close> and \<open>afterDate(point)\<close>, and \<open>decodeInt\<close>.
\<close>

record env =
  clock :: "nat \<Rightarrow> time"
  VerifyGroth16 :: "ZKProof \<Rightarrow> byte list \<Rightarrow> err option"
  beforeDate :: "time \<Rightarrow> rule"
  afterDate :: "time \<Rightarrow> rule"
  decodeInt :: "string \<Rightarrow> string"

text \<open>The calls to the two collaborators that a run makes, in order.\<close>

datatype call = VerifyRootCall string | VerifyGroth16Call ZKProof "byte list"

section \<open>The correlation check\<close>

definition SetExternalID :: "Verifier \<Rightarrow> string \<Rightarrow> Verifier" where
  "SetExternalID v extID =
     (let idHash = Sum256 (bytesOf extID)
      in v\<lparr>opts := (opts v)\<lparr>externalID := EncodeToString idHash\<rparr>\<rparr>)"

definition VerifyExternalID :: "Verifier \<Rightarrow> string \<Rightarrow> err option" where
  "VerifyExternalID v extID =
     Filter [(''external_id'',
              Validate (VString (externalID (opts v))) [Required, In [VString extID]])]"

section \<open>Validation of the public signals\<close>

text \<open>
  Modelled from the spec: \<open>validateOnOptSet(value, option, rule)\<close> is not in the
  sources. The spec: a conditional check runs only if the corresponding configuration
  field is set; if unset, the field is vacuously valid. It is the pattern that
  \<open>Verifier.validate\<close> writes inline for each configurable field:
  \<open>val.Validate(value, val.When(!val.IsEmpty(option), val.Required, rule))\<close>.
\<close>

definition validateOnOptSet :: "val \<Rightarrow> val \<Rightarrow> rule \<Rightarrow> err option" where
  "validateOnOptSet x option r = Validate x [When (\<not> IsEmpty option) [Required, r]]"

text \<open>A rule held in an interface, as a value (a nil interface is empty) and as the
  rule to run (a nil rule is never run: \<open>When\<close> skips it).\<close>

definition ruleVal :: "rule option \<Rightarrow> val" where
  "ruleVal r = (case r of None \<Rightarrow> VNil | Some _ \<Rightarrow> VStruct)"

definition ruleOf :: "rule option \<Rightarrow> rule" where
  "ruleOf r = (case r of None \<Rightarrow> (\<lambda>v. None) | Some f \<Rightarrow> f)"

text \<open>The two legs of \<open>validateIdentitiesInputs\<close>: its locals \<open>cErr\<close> and \<open>tErr\<close>.\<close>

definition cErr :: "Verifier \<Rightarrow> 64 word \<Rightarrow> err option" where
  "cErr v counter =
     Validate (VInt (sint counter))
       [When (maxIdentitiesCount (opts v) \<noteq> - 1)
          [Required, Max_rule (sint (maxIdentitiesCount (opts v)))]]"

definition tErr :: "env \<Rightarrow> Verifier \<Rightarrow> string list \<Rightarrow> err option" where
  "tErr env v signals =
     validateOnOptSet (VString (signals ! TimestampUpperBound))
       (VTime (maxIdentityCreationTimestamp (opts v)))
       (beforeDate env (maxIdentityCreationTimestamp (opts v)))"

text \<open>
  \<open>validateIdentitiesInputs\<close>. Reading \<open>signals[16]\<close> panics on a shorter vector;
  position 14 is then in range. The result is a \<open>val.Errors\<close> map that may hold a nil
  error; the nil map is \<open>[]\<close>.
\<close>

definition validateIdentitiesInputs :: "env \<Rightarrow> Verifier \<Rightarrow> string list \<Rightarrow> errors exec" where
  "validateIdentitiesInputs env v signals =
     (if length signals \<le> IdentityCounterUpperBound then Panics
      else (case ParseInt (signals ! IdentityCounterUpperBound) of
        Inl err \<Rightarrow> Returns [(''pub_signals/identity_counter_upper_bound'', Some err)]
      | Inr counter \<Rightarrow>
          if cErr v counter \<noteq> None
          then Returns [(''pub_signals/timestamp_upper_bound'', tErr env v signals)]
          else if tErr env v signals \<noteq> None
          then Returns [(''pub_signals/identity_counter_upper_bound'', cErr v counter)]
          else Returns []))"

text \<open>
  \<open>validateBase\<close>, with the calls it makes. After the shape check the vector has 21
  entries, so every position read is in range. A nil \<open>rootVerifier\<close> panics at the
  call. \<open>time.Now()\<close> is read twice: for \<open>allowedBirthDate\<close>, then for the expiration
  rule.
\<close>

definition allowedBirthDate :: "env \<Rightarrow> Verifier \<Rightarrow> time" where
  "allowedBirthDate env v = AddDate (clock env 0) (- age (opts v))"

text \<open>The map \<open>all\<close> of \<open>validateBase\<close>, as its literal lists it; \<open>err\<close> is the result
  of the root verifier.\<close>

definition allErrors :: "env \<Rightarrow> Verifier \<Rightarrow> string list \<Rightarrow> err option \<Rightarrow> errors" where
  "allErrors env v signals err =
     [(''pub_signals/nullifier'',
         Validate (VString (signals ! Nullifier)) [Required]),
      (''pub_signals/selector'',
         Validate (VString (signals ! Selector)) [Required, In [VString proofSelectorValue]]),
      (''pub_signals/expiration_date_lower_bound'',
         Validate (VString (signals ! ExpirationDateLowerBound))
           [Required, afterDate env (clock env 1)]),
      (''pub_signals/id_state_hash'', err),
      (''pub_signals/event_id'',
         validateOnOptSet (VString (signals ! EventID))
           (VString (eventID (opts v))) (In [VString (eventID (opts v))])),
      (''pub_signals/birth_date_upper_bound'',
         validateOnOptSet (VString (signals ! BirthdateUpperBound))
           (VInt (age (opts v))) (beforeDate env (allowedBirthDate env v))),
      (''pub_signals/citizenship'',
         validateOnOptSet (VString (decodeInt env (signals ! Citizenship)))
           (VSlice (citizenships (opts v))) (In (citizenships (opts v)))),
      (''pub_signals/event_data'',
         validateOnOptSet (VString (signals ! EventData))
           (ruleVal (eventDataRule (opts v))) (ruleOf (eventDataRule (opts v))))]"

definition validateBase :: "env \<Rightarrow> Verifier \<Rightarrow> ZKProof \<Rightarrow> err option exec \<times> call list" where
  "validateBase env v zkProof =
     (let signals = PubSignals zkProof;
          err = Filter
            [(''zk_proof/proof'',
                Validate (case Proof zkProof of None \<Rightarrow> VNil | Some _ \<Rightarrow> VStruct) [Required]),
             (''zk_proof/pub_signals'',
                Validate (VSlice (map VString signals)) [Required, Length 21 21])]
      in if err \<noteq> None then (Returns err, [])
         else case rootVerifier (opts v) of
           None \<Rightarrow> (Panics, [])
         | Some verifyRoot \<Rightarrow>
             let err = verifyRoot (signals ! IdStateRoot);
                 calls = [VerifyRootCall (signals ! IdStateRoot)]
             in if errors_Is err ErrContractCall then (Returns err, calls)
                else
                  let all = allErrors env v signals err
                  in (case validateIdentitiesInputs env v signals of
                        Panics \<Rightarrow> (Panics, calls)
                      | Returns ids \<Rightarrow>
                          (Returns (Filter (foldl (\<lambda>m (field, e). put field e m) all ids)),
                           calls)))"

text \<open>
  \<open>VerifyProof\<close>: the result, the verifier behind the receiver pointer after the call,
  and the calls made. The pairing check takes the key of \<open>v\<close>.
\<close>

definition VerifyProof ::
  "env \<Rightarrow> Verifier \<Rightarrow> ZKProof \<Rightarrow> VerifyOption list \<Rightarrow> err option exec \<times> Verifier \<times> call list" where
  "VerifyProof env v zkProof options =
     (let v2 = \<lparr>verificationKey = verificationKey v, opts = mergeOptions (opts v) options\<rparr>
      in case validateBase env v2 zkProof of
           (Panics, calls) \<Rightarrow> (Panics, v, calls)
         | (Returns (Some err), calls) \<Rightarrow> (Returns (Some err), v, calls)
         | (Returns None, calls) \<Rightarrow>
             (case VerifyGroth16 env zkProof (verificationKey v) of
                Some err \<Rightarrow>
                  (Returns (Some (Wrapped ''groth16 verification failed'' err)), v,
                   calls @ [VerifyGroth16Call zkProof (verificationKey v)])
              | None \<Rightarrow>
                  (Returns None, v, calls @ [VerifyGroth16Call zkProof (verificationKey v)])))"

text \<open>The entry of a returned report under a field path (none when the call returned
  no report).\<close>

fun fieldError :: "err option exec \<Rightarrow> string \<Rightarrow> err option" where
  "fieldError (Returns (Some (Errors es))) k = map_of es k"
| "fieldError r k = None"

text \<open>The entries of the report of the shape check of \<open>validateBase\<close>, by whether the
  proof container is absent and by the length of the signal vector
  (\<open>validateBase_shape\<close> below: this is what the check returns).\<close>

definition shapeEntries :: "bool \<Rightarrow> nat \<Rightarrow> (string \<times> err) list" where
  "shapeEntries absent n =
     (if absent then [(''zk_proof/proof'', ErrRequired)] else []) @
     (if n = 0 then [(''zk_proof/pub_signals'', ErrRequired)]
      else if n \<noteq> 21 then [(''zk_proof/pub_signals'', ErrLengthInvalid 21)] else [])"


section \<open>An example environment, verifier and proof\<close>

text \<open>
  Stand-ins for the helpers that are not in the sources, for the closed examples
  below only: a date signal is eight decimal digits YYYYMMDD, and the packed integer
  5589842 decodes to UKR (its bytes, as in the proof of the package's tests).
\<close>

definition timeAfter :: "time \<Rightarrow> time \<Rightarrow> bool" where
  "timeAfter t u =
     (year t > year u \<or> (year t = year u \<and> (month t > month u \<or> (month t = month u \<and>
       (day t > day u \<or> (day t = day u \<and> nsec t > nsec u))))))"

definition exampleDate :: "string \<Rightarrow> time option" where
  "exampleDate s =
     (if length s = 8 \<and> list_all isDigit s
      then Some \<lparr>year = digitsValue (take 4 s), month = nat (digitsValue (take 2 (drop 4 s))),
                 day = nat (digitsValue (drop 6 s)), nsec = 0\<rparr>
      else None)"

definition exampleBefore :: "time \<Rightarrow> rule" where
  "exampleBefore point v =
     (case v of
        VString s \<Rightarrow>
          (case exampleDate s of
             None \<Rightarrow> Some (ErrOther ''invalid date'')
           | Some d \<Rightarrow> if timeAfter d point then Some (ErrOther ''date is too late'') else None)
      | _ \<Rightarrow> Some (ErrOther ''invalid type''))"

definition exampleAfter :: "time \<Rightarrow> rule" where
  "exampleAfter point v =
     (case v of
        VString s \<Rightarrow>
          (case exampleDate s of
             None \<Rightarrow> Some (ErrOther ''invalid date'')
           | Some d \<Rightarrow> if timeAfter point d then Some (ErrOther ''date is too early'') else None)
      | _ \<Rightarrow> Some (ErrOther ''invalid type''))"

definition exampleEnv :: env where
  "exampleEnv =
     \<lparr>clock = (\<lambda>n. \<lparr>year = 2024, month = 6, day = 15, nsec = n\<rparr>),
      VerifyGroth16 = (\<lambda>p k. None),
      beforeDate = exampleBefore,
      afterDate = exampleAfter,
      decodeInt = (\<lambda>s. if s = ''5589842'' then ''UKR'' else [])\<rparr>"

text \<open>A vector of 21 signals: citizenship UKR, selector 39, timestamp bound 1 March
  2024, identity counter 10, birth date bound 1 January 2000, expiration bound 1 January
  2030.\<close>

definition exampleSignals :: "string list" where
  "exampleSignals =
     [''1367019798'', ''0'', ''0'', ''0'', ''0'', ''0'', ''5589842'', ''0'', ''0'',
      ''3043588628'', ''9943187220'', ''1295155051'', ''39'', ''0'', ''20240301'', ''0'',
      ''10'', ''0'', ''20000101'', ''20300101'', ''0'']"

definition exampleProof :: ZKProof where
  "exampleProof =
     \<lparr>Proof = Some \<lparr>A = [''1'', ''2'', ''1''], B = [[''1'', ''2''], [''3'', ''4''], [''1'', ''0'']],
                     C = [''5'', ''6'', ''1''], Protocol = ''groth16''\<rparr>,
      PubSignals = exampleSignals\<rparr>"

text \<open>Options with a minimum age of 18, at most 5 identities, identities created by
  1 January 2024, and a root verifier that accepts every root.\<close>

definition exampleOptions :: VerifyOptions where
  "exampleOptions =
     \<lparr>externalID = [], age = 18, citizenships = [], eventID = [], eventDataRule = None,
      rootVerifier = Some (\<lambda>root. None), verificationKeyFile = [],
      maxIdentitiesCount = 5,
      maxIdentityCreationTimestamp = \<lparr>year = 2024, month = 1, day = 1, nsec = 0\<rparr>\<rparr>"

definition exampleVerifier :: Verifier where
  "exampleVerifier = \<lparr>verificationKey = [1, 2, 3], opts = exampleOptions\<rparr>"

section \<open>Evaluation of the examples\<close>

lemma ParseInt_examples:
  "ParseInt ''0'' = Inr 0" "ParseInt ''10'' = Inr 10" "ParseInt ''3'' = Inr 3"
  "ParseInt ''abc'' = Inl (ErrSyntax ''abc'')"
  by (simp_all add: ParseInt_def isDigit_def digitsValue_def)

lemma exampleDate_examples:
  "exampleDate ''20240301'' = Some \<lparr>year = 2024, month = 3, day = 1, nsec = 0\<rparr>"
  "exampleDate ''20000101'' = Some \<lparr>year = 2000, month = 1, day = 1, nsec = 0\<rparr>"
  "exampleDate ''20300101'' = Some \<lparr>year = 2030, month = 1, day = 1, nsec = 0\<rparr>"
  by (simp_all add: exampleDate_def isDigit_def digitsValue_def)

lemmas example_defs =
  exampleEnv_def exampleVerifier_def exampleOptions_def exampleProof_def exampleSignals_def
  exampleBefore_def exampleAfter_def exampleDate_examples ParseInt_examples timeAfter_def

lemmas check_defs =
  validateBase_def allErrors_def validateIdentitiesInputs_def cErr_def tErr_def
  validateOnOptSet_def When_def Required_def In_def Max_rule_def Length_def LengthOfValue_def
  Filter_def allowedBirthDate_def AddDate_def IsZero_def ruleVal_def ruleOf_def

lemma example_validateBase:
  "validateBase exampleEnv exampleVerifier exampleProof
   = (Returns (Some (Errors [(''pub_signals/timestamp_upper_bound'', ErrOther ''date is too late'')])),
      [VerifyRootCall ''1295155051''])"
  by (simp add: check_defs example_defs)

section \<open>The shape check\<close>

lemma shape_check:
  "Filter
     [(''zk_proof/proof'',
         Validate (case Proof p of None \<Rightarrow> VNil | Some _ \<Rightarrow> VStruct) [Required]),
      (''zk_proof/pub_signals'',
         Validate (VSlice (map VString (PubSignals p))) [Required, Length 21 21])]
   = (if Proof p = None \<or> length (PubSignals p) \<noteq> 21
      then Some (Errors (shapeEntries (Proof p = None) (length (PubSignals p))))
      else None)"
  by (cases "Proof p")
     (auto simp: Filter_def Required_def Length_def LengthOfValue_def shapeEntries_def)

lemma validateBase_shape:
  assumes "Proof p = None \<or> length (PubSignals p) \<noteq> 21"
  shows "validateBase env v p
         = (Returns (Some (Errors (shapeEntries (Proof p = None) (length (PubSignals p))))), [])"
  using assms unfolding validateBase_def Let_def shape_check by simp

lemma shapeEntries_keys:
  "absent \<or> n \<noteq> 21 \<Longrightarrow> shapeEntries absent n \<noteq> []
     \<and> fst ` set (shapeEntries absent n) \<subseteq> {''zk_proof/proof'', ''zk_proof/pub_signals''}"
  by (auto simp: shapeEntries_def)

lemma VerifyProof_shape:
  assumes "Proof p = None \<or> length (PubSignals p) \<noteq> 21"
  shows "VerifyProof env v p options
         = (Returns (Some (Errors (shapeEntries (Proof p = None) (length (PubSignals p))))), v, [])"
  unfolding VerifyProof_def Let_def validateBase_shape[OF assms] by simp

text \<open>
  Claim C3. When the proof container is absent, or the signal vector is absent or its
  length is not 21, \<open>validateBase\<close> (and so \<open>VerifyProof\<close>) returns a report whose
  entries are all under the two shape paths \<open>zk_proof/proof\<close> and
  \<open>zk_proof/pub_signals\<close>, and makes no call: the root verifier is not called. No
  signal is read: the call never panics, even on an empty vector, and the report is the
  same for every environment, every verifier and every proof with the same presence of
  the container and the same length of the vector, whatever the signals hold.
\<close>

theorem validateBase_shape_error:
  assumes "Proof p = None \<or> length (PubSignals p) \<noteq> 21"
  shows "\<exists>es. es \<noteq> [] \<and> fst ` set es \<subseteq> {''zk_proof/proof'', ''zk_proof/pub_signals''}
            \<and> validateBase env v p = (Returns (Some (Errors es)), [])
            \<and> VerifyProof env v p options = (Returns (Some (Errors es)), v, [])
            \<and> (\<forall>env' v' p'. (Proof p' = None) = (Proof p = None)
                   \<and> length (PubSignals p') = length (PubSignals p)
                 \<longrightarrow> validateBase env' v' p' = (Returns (Some (Errors es)), []))"
proof (intro exI conjI allI impI)
  let ?es = "shapeEntries (Proof p = None) (length (PubSignals p))"
  show "?es \<noteq> []" and "fst ` set ?es \<subseteq> {''zk_proof/proof'', ''zk_proof/pub_signals''}"
    using shapeEntries_keys[OF assms] by blast+
  show "validateBase env v p = (Returns (Some (Errors ?es)), [])"
    by (rule validateBase_shape[OF assms])
  show "VerifyProof env v p options = (Returns (Some (Errors ?es)), v, [])"
    by (rule VerifyProof_shape[OF assms])
  fix env' :: env and v' :: Verifier and p' :: ZKProof
  assume same: "(Proof p' = None) = (Proof p = None)
      \<and> length (PubSignals p') = length (PubSignals p)"
  then have "Proof p' = None \<or> length (PubSignals p') \<noteq> 21" using assms by simp
  from validateBase_shape[OF this] same
  show "validateBase env' v' p' = (Returns (Some (Errors ?es)), [])" by simp
qed

text \<open>The example proof with its first signal dropped (20 signals) is rejected at the
  shape check, with no call.\<close>

theorem validateBase_shape_error_witness:
  "length (PubSignals (exampleProof\<lparr>PubSignals := tl exampleSignals\<rparr>)) \<noteq> 21
   \<and> (\<exists>es. es \<noteq> []
         \<and> validateBase exampleEnv exampleVerifier (exampleProof\<lparr>PubSignals := tl exampleSignals\<rparr>)
             = (Returns (Some (Errors es)), []))"
proof -
  have h: "Proof (exampleProof\<lparr>PubSignals := tl exampleSignals\<rparr>) = None
     \<or> length (PubSignals (exampleProof\<lparr>PubSignals := tl exampleSignals\<rparr>)) \<noteq> 21"
    by (simp add: exampleSignals_def)
  from validateBase_shape_error[OF h, of exampleEnv exampleVerifier "[]"] show ?thesis
    by (simp add: exampleSignals_def) blast
qed

section \<open>The report of a well-shaped proof\<close>

lemma kept_keys: "k \<notin> fst ` set es \<Longrightarrow> map_of (kept es) k = None"
  by (induction es rule: kept.induct) auto

lemma map_of_kept:
  "distinct (map fst es) \<Longrightarrow>
   map_of (kept es) k = (case map_of es k of Some (Some e) \<Rightarrow> Some e | _ \<Rightarrow> None)"
  by (induction es rule: kept.induct) (auto simp: kept_keys)

lemma fieldError_Filter:
  "distinct (map fst es) \<Longrightarrow>
   fieldError (Returns (Filter es)) k
     = (case map_of es k of Some (Some e) \<Rightarrow> Some e | _ \<Rightarrow> None)"
  by (simp add: Filter_def map_of_kept[symmetric])

lemma allErrors_keys:
  "map fst (allErrors env v signals err) =
     [''pub_signals/nullifier'', ''pub_signals/selector'',
      ''pub_signals/expiration_date_lower_bound'', ''pub_signals/id_state_hash'',
      ''pub_signals/event_id'', ''pub_signals/birth_date_upper_bound'',
      ''pub_signals/citizenship'', ''pub_signals/event_data'']"
  by (simp add: allErrors_def)

lemma put_fresh: "k \<notin> set (map fst es) \<Longrightarrow> put k e es = es @ [(k, e)]"
  by (induction es) auto

lemma ids_cases:
  assumes "IdentityCounterUpperBound < length signals"
  shows "validateIdentitiesInputs env v signals = Returns []
       \<or> (\<exists>e. validateIdentitiesInputs env v signals
                 = Returns [(''pub_signals/identity_counter_upper_bound'', e)])
       \<or> (\<exists>e. validateIdentitiesInputs env v signals
                 = Returns [(''pub_signals/timestamp_upper_bound'', e)])"
  using assms by (auto simp: validateIdentitiesInputs_def split: sum.splits)

lemma merge_ids:
  assumes "ids = [] \<or> (\<exists>e. ids = [(''pub_signals/identity_counter_upper_bound'', e)])
       \<or> (\<exists>e. ids = [(''pub_signals/timestamp_upper_bound'', e)])"
  shows "foldl (\<lambda>m (field, e). put field e m) (allErrors env v signals err) ids
           = allErrors env v signals err @ ids
       \<and> distinct (map fst (allErrors env v signals err @ ids))"
  using assms by (auto simp: put_fresh allErrors_keys)

text \<open>Past the shape check and the root verifier, the result is the filtered map of the
  eight entries of \<open>all\<close> and the entry of the freshness pair, after one call.\<close>

lemma validateBase_ok:
  assumes "Proof p \<noteq> None" and "length (PubSignals p) = 21"
    and "rootVerifier (opts v) = Some rv"
    and "\<not> errors_Is (rv (PubSignals p ! IdStateRoot)) ErrContractCall"
  shows "\<exists>ids. validateIdentitiesInputs env v (PubSignals p) = Returns ids
           \<and> distinct (map fst
                 (allErrors env v (PubSignals p) (rv (PubSignals p ! IdStateRoot)) @ ids))
           \<and> validateBase env v p
               = (Returns (Filter
                    (allErrors env v (PubSignals p) (rv (PubSignals p ! IdStateRoot)) @ ids)),
                  [VerifyRootCall (PubSignals p ! IdStateRoot)])"
proof -
  have len: "IdentityCounterUpperBound < length (PubSignals p)" using assms(2) by simp
  from ids_cases[OF len, of env v] obtain ids where
    ids: "validateIdentitiesInputs env v (PubSignals p) = Returns ids"
    and form: "ids = [] \<or> (\<exists>e. ids = [(''pub_signals/identity_counter_upper_bound'', e)])
       \<or> (\<exists>e. ids = [(''pub_signals/timestamp_upper_bound'', e)])"
    by blast
  note m = merge_ids[OF form, of env v "PubSignals p" "rv (PubSignals p ! IdStateRoot)"]
  have "validateBase env v p
      = (Returns (Filter
           (allErrors env v (PubSignals p) (rv (PubSignals p ! IdStateRoot)) @ ids)),
         [VerifyRootCall (PubSignals p ! IdStateRoot)])"
    using assms ids m unfolding validateBase_def Let_def shape_check
    by simp
  with ids m show ?thesis by blast
qed

section \<open>Properties of the correlation check\<close>

lemma length_EncodeToString: "length (EncodeToString bs) = 2 * length bs"
  by (induction bs) (simp_all add: EncodeToString_def)

lemma length_Sum256: "length (Sum256 msg) = 32"
  by (simp add: Sum256_def bytes32_def split: prod.splits)

lemma digest_not_empty: "EncodeToString (Sum256 msg) \<noteq> []"
proof
  assume "EncodeToString (Sum256 msg) = []"
  then have "length (EncodeToString (Sum256 msg)) = 0" by simp
  then show False by (simp add: length_EncodeToString length_Sum256)
qed

text \<open>
  Claim C5, as amended. \<open>VerifyExternalID\<close> succeeds if and only if the configured
  correlation digest is set (not empty) and is equal to the candidate string itself:
  the candidate is compared as it is given, no digest of it is computed. When the
  configured digest is unset the check fails, with \<open>ErrRequired\<close>, for every
  candidate. After \<open>WithExternalID\<close> or \<open>SetExternalID\<close> of a raw identifier the check
  succeeds exactly for the candidate that is the SHA-256 hex digest of that
  identifier, so the caller passes the digest, not the raw identifier.
\<close>

theorem VerifyExternalID_succeeds_iff:
  "(VerifyExternalID v candidate = None)
     = (externalID (opts v) \<noteq> [] \<and> externalID (opts v) = candidate)
   \<and> VerifyExternalID (v\<lparr>opts := (opts v)\<lparr>externalID := []\<rparr>\<rparr>) candidate
     = Some (Errors [(''external_id'', ErrRequired)])
   \<and> (VerifyExternalID (v\<lparr>opts := WithExternalID raw (opts v)\<rparr>) candidate = None)
     = (candidate = EncodeToString (Sum256 (bytesOf raw)))
   \<and> (VerifyExternalID (SetExternalID v raw) candidate = None)
     = (candidate = EncodeToString (Sum256 (bytesOf raw)))"
proof -
  have iff: "(VerifyExternalID w c = None) = (externalID (opts w) \<noteq> [] \<and> externalID (opts w) = c)"
    for w c
    by (simp add: VerifyExternalID_def Filter_def Required_def In_def)
  have unset: "VerifyExternalID (v\<lparr>opts := (opts v)\<lparr>externalID := []\<rparr>\<rparr>) candidate
     = Some (Errors [(''external_id'', ErrRequired)])"
    by (simp add: VerifyExternalID_def Filter_def Required_def)
  have w: "externalID (opts (v\<lparr>opts := WithExternalID raw (opts v)\<rparr>))
     = EncodeToString (Sum256 (bytesOf raw))"
    by (simp add: WithExternalID_def)
  have s: "externalID (opts (SetExternalID v raw)) = EncodeToString (Sum256 (bytesOf raw))"
    by (simp add: SetExternalID_def)
  show ?thesis
    unfolding iff w s using unset digest_not_empty[of "bytesOf raw"] by auto
qed

text \<open>
  The claim as stated fails: a verifier configured with the raw identifier \<open>alice\<close>
  holds the SHA-256 hex digest of \<open>alice\<close>, and the check of the candidate raw
  identifier \<open>alice\<close> is rejected.
\<close>

theorem VerifyExternalID_raw_candidate_rejected:
  "externalID (opts (exampleVerifier\<lparr>opts := WithExternalID ''alice'' exampleOptions\<rparr>))
     = EncodeToString (Sum256 (bytesOf ''alice''))
   \<and> VerifyExternalID (exampleVerifier\<lparr>opts := WithExternalID ''alice'' exampleOptions\<rparr>) ''alice''
     = Some (Errors [(''external_id'', ErrInInvalid)])"
proof -
  have "length (EncodeToString (Sum256 (bytesOf ''alice''))) = 64"
    by (simp add: length_EncodeToString length_Sum256)
  then have "EncodeToString (Sum256 (bytesOf ''alice'')) \<noteq> ''alice''"
    and "EncodeToString (Sum256 (bytesOf ''alice'')) \<noteq> []"
    by auto
  then show ?thesis
    by (simp add: VerifyExternalID_def WithExternalID_def Filter_def Required_def In_def)
qed

section \<open>The freshness pair\<close>

text \<open>
  Claim C10. With the identity-count limit configured to 0 (not the sentinel -1) and a
  counter signal that parses to 0, the count leg fails with \<open>ErrRequired\<close>: the zero
  counter counts as a blank value, although 0 is not above the bound 0 and the bound
  rule alone accepts it. The pair is then decided by the timestamp leg alone.
\<close>

theorem zero_counter_rejected_as_blank:
  assumes "maxIdentitiesCount (opts v) = 0"
    and "IdentityCounterUpperBound < length signals"
    and "ParseInt (signals ! IdentityCounterUpperBound) = Inr 0"
  shows "cErr v 0 = Some ErrRequired
       \<and> \<not> sint (maxIdentitiesCount (opts v)) < sint (0 :: 64 word)
       \<and> Max_rule (sint (maxIdentitiesCount (opts v))) (VInt (sint (0 :: 64 word))) = None
       \<and> validateIdentitiesInputs env v signals
           = Returns [(''pub_signals/timestamp_upper_bound'', tErr env v signals)]"
  using assms
  by (simp add: cErr_def When_def Required_def Max_rule_def validateIdentitiesInputs_def)

text \<open>With limit 0, counter signal \<open>0\<close> and a timestamp bound after the configured
  limit, the pair fails.\<close>

theorem zero_counter_rejected_as_blank_witness:
  "maxIdentitiesCount (opts (exampleVerifier\<lparr>opts := exampleOptions\<lparr>maxIdentitiesCount := 0\<rparr>\<rparr>)) = 0
   \<and> ParseInt (exampleSignals[16 := ''0''] ! IdentityCounterUpperBound) = Inr 0
   \<and> validateIdentitiesInputs exampleEnv
        (exampleVerifier\<lparr>opts := exampleOptions\<lparr>maxIdentitiesCount := 0\<rparr>\<rparr>)
        (exampleSignals[16 := ''0''])
      = Returns [(''pub_signals/timestamp_upper_bound'', Some (ErrOther ''date is too late''))]"
proof -
  let ?v = "exampleVerifier\<lparr>opts := exampleOptions\<lparr>maxIdentitiesCount := 0\<rparr>\<rparr>"
  let ?s = "exampleSignals[16 := ''0'']"
  have a: "maxIdentitiesCount (opts ?v) = 0" by simp
  have b: "IdentityCounterUpperBound < length ?s" by (simp add: exampleSignals_def)
  have c: "ParseInt (?s ! IdentityCounterUpperBound) = Inr 0"
    by (simp add: exampleSignals_def ParseInt_examples)
  have t: "tErr exampleEnv ?v ?s = Some (ErrOther ''date is too late'')"
    by (simp add: tErr_def validateOnOptSet_def When_def Required_def IsZero_def
        exampleSignals_def exampleEnv_def exampleOptions_def exampleBefore_def
        exampleDate_examples timeAfter_def)
  from zero_counter_rejected_as_blank[OF a b c, of exampleEnv] a c t show ?thesis by simp
qed

lemma tErr_fails:
  assumes "\<not> IsZero (maxIdentityCreationTimestamp (opts v))"
    and "beforeDate env (maxIdentityCreationTimestamp (opts v))
           (VString (signals ! TimestampUpperBound)) \<noteq> None"
  shows "tErr env v signals \<noteq> None"
  using assms by (auto simp: tErr_def validateOnOptSet_def When_def Required_def)

lemma cErr_fails:
  assumes "maxIdentitiesCount (opts v) \<noteq> - 1"
    and "sint (maxIdentitiesCount (opts v)) < sint counter"
  shows "cErr v counter \<noteq> None"
  using assms by (auto simp: cErr_def When_def Required_def Max_rule_def)

text \<open>
  Claim C1, as amended. For a configuration with both limits set (the count limit is
  not -1, the timestamp limit is not the zero time) and a proof past the shape check
  and the root verifier (no \<open>ErrContractCall\<close>), whose counter signal parses to a
  value above the count limit and whose timestamp signal is rejected by the rule
  \<open>beforeDate\<close> of the timestamp limit: the report of \<open>validateBase\<close> holds the error
  of the timestamp leg under \<open>pub_signals/timestamp_upper_bound\<close>, and no entry under
  \<open>pub_signals/identity_counter_upper_bound\<close>. One field error is reported for the
  pair, not two.
\<close>

theorem freshness_pair_reports_timestamp_only:
  assumes "Proof p \<noteq> None" and "length (PubSignals p) = 21"
    and "rootVerifier (opts v) = Some rv"
    and "\<not> errors_Is (rv (PubSignals p ! IdStateRoot)) ErrContractCall"
    and "maxIdentitiesCount (opts v) \<noteq> - 1"
    and "\<not> IsZero (maxIdentityCreationTimestamp (opts v))"
    and "ParseInt (PubSignals p ! IdentityCounterUpperBound) = Inr counter"
    and "sint (maxIdentitiesCount (opts v)) < sint counter"
    and "beforeDate env (maxIdentityCreationTimestamp (opts v))
           (VString (PubSignals p ! TimestampUpperBound)) \<noteq> None"
  shows "fieldError (fst (validateBase env v p)) ''pub_signals/timestamp_upper_bound''
           = tErr env v (PubSignals p)
       \<and> tErr env v (PubSignals p) \<noteq> None
       \<and> fieldError (fst (validateBase env v p)) ''pub_signals/identity_counter_upper_bound''
           = None"
proof -
  let ?all = "allErrors env v (PubSignals p) (rv (PubSignals p ! IdStateRoot))"
  let ?t = "tErr env v (PubSignals p)"
  have c: "cErr v counter \<noteq> None" by (rule cErr_fails[OF assms(5) assms(8)])
  have t: "?t \<noteq> None" by (rule tErr_fails[OF assms(6) assms(9)])
  have ids: "validateIdentitiesInputs env v (PubSignals p)
      = Returns [(''pub_signals/timestamp_upper_bound'', ?t)]"
    using assms(2) assms(7) c by (simp add: validateIdentitiesInputs_def)
  from validateBase_ok[OF assms(1-4), of env] ids
  have d: "distinct (map fst (?all @ [(''pub_signals/timestamp_upper_bound'', ?t)]))"
    and r: "fst (validateBase env v p)
      = Returns (Filter (?all @ [(''pub_signals/timestamp_upper_bound'', ?t)]))"
    by auto
  have k1: "map_of (?all @ [(''pub_signals/timestamp_upper_bound'', ?t)])
            ''pub_signals/timestamp_upper_bound'' = Some ?t"
    by (simp add: allErrors_def)
  have k2: "map_of (?all @ [(''pub_signals/timestamp_upper_bound'', ?t)])
            ''pub_signals/identity_counter_upper_bound'' = None"
    by (simp add: allErrors_def)
  show ?thesis
    unfolding r fieldError_Filter[OF d] k1 k2 using t by (auto split: option.splits)
qed

text \<open>The example: limit 5 and counter 10, limit 1 January 2024 and timestamp bound
  1 March 2024.\<close>

theorem freshness_pair_reports_timestamp_only_witness:
  "Proof exampleProof \<noteq> None \<and> length (PubSignals exampleProof) = 21
   \<and> maxIdentitiesCount (opts exampleVerifier) \<noteq> - 1
   \<and> \<not> IsZero (maxIdentityCreationTimestamp (opts exampleVerifier))
   \<and> ParseInt (PubSignals exampleProof ! IdentityCounterUpperBound) = Inr 10
   \<and> sint (maxIdentitiesCount (opts exampleVerifier)) < sint (10 :: 64 word)
   \<and> fieldError (fst (validateBase exampleEnv exampleVerifier exampleProof))
        ''pub_signals/timestamp_upper_bound'' = Some (ErrOther ''date is too late'')
   \<and> fieldError (fst (validateBase exampleEnv exampleVerifier exampleProof))
        ''pub_signals/identity_counter_upper_bound'' = None"
proof -
  have h1: "Proof exampleProof \<noteq> None" by (simp add: exampleProof_def)
  have h2: "length (PubSignals exampleProof) = 21"
    by (simp add: exampleProof_def exampleSignals_def)
  have h3: "rootVerifier (opts exampleVerifier) = Some (\<lambda>root. None)"
    by (simp add: exampleVerifier_def exampleOptions_def)
  have h4: "\<not> errors_Is ((\<lambda>root. None) (PubSignals exampleProof ! IdStateRoot)) ErrContractCall"
    by simp
  have h5: "maxIdentitiesCount (opts exampleVerifier) \<noteq> - 1"
    by (simp add: exampleVerifier_def exampleOptions_def)
  have h6: "\<not> IsZero (maxIdentityCreationTimestamp (opts exampleVerifier))"
    by (simp add: exampleVerifier_def exampleOptions_def IsZero_def)
  have h7: "ParseInt (PubSignals exampleProof ! IdentityCounterUpperBound) = Inr 10"
    by (simp add: example_defs)
  have h8: "sint (maxIdentitiesCount (opts exampleVerifier)) < sint (10 :: 64 word)"
    by (simp add: exampleVerifier_def exampleOptions_def)
  have h9: "beforeDate exampleEnv (maxIdentityCreationTimestamp (opts exampleVerifier))
           (VString (PubSignals exampleProof ! TimestampUpperBound)) \<noteq> None"
    by (simp add: example_defs)
  have t: "tErr exampleEnv exampleVerifier (PubSignals exampleProof)
      = Some (ErrOther ''date is too late'')"
    by (simp add: tErr_def validateOnOptSet_def When_def Required_def IsZero_def example_defs)
  from freshness_pair_reports_timestamp_only[OF h1 h2 h3 h4 h5 h6 h7 h8 h9]
    h1 h2 h5 h6 h7 h8 t
  show ?thesis by simp
qed

text \<open>
  The claim as stated fails: with the count limit 5 and the counter 10, the timestamp
  limit 1 January 2024 and the timestamp bound 1 March 2024, both legs fail and the whole
  report of \<open>validateBase\<close> is the single entry of the timestamp.
\<close>

theorem freshness_pair_single_error:
  "maxIdentitiesCount (opts exampleVerifier) = 5
   \<and> ParseInt (PubSignals exampleProof ! IdentityCounterUpperBound) = Inr 10
   \<and> maxIdentityCreationTimestamp (opts exampleVerifier)
       = \<lparr>year = 2024, month = 1, day = 1, nsec = 0\<rparr>
   \<and> exampleDate (PubSignals exampleProof ! TimestampUpperBound)
       = Some \<lparr>year = 2024, month = 3, day = 1, nsec = 0\<rparr>
   \<and> fst (validateBase exampleEnv exampleVerifier exampleProof)
       = Returns (Some (Errors
           [(''pub_signals/timestamp_upper_bound'', ErrOther ''date is too late'')]))"
  by (simp add: check_defs example_defs)

text \<open>
  Claim C9, as amended. For a proof past the shape check and the root verifier whose
  counter signal does not parse as a decimal int64, the parser's error is the entry
  of the aggregated field report under \<open>pub_signals/identity_counter_upper_bound\<close>. It
  is not a shape error: the root verifier has been called, and every other field check
  of \<open>all\<close> is in the same report with its own result (the timestamp leg is not
  evaluated, so it has no entry).
\<close>

theorem counter_parse_error_in_field_report:
  assumes "Proof p \<noteq> None" and "length (PubSignals p) = 21"
    and "rootVerifier (opts v) = Some rv"
    and "\<not> errors_Is (rv (PubSignals p ! IdStateRoot)) ErrContractCall"
    and "ParseInt (PubSignals p ! IdentityCounterUpperBound) = Inl e"
  shows "fieldError (fst (validateBase env v p)) ''pub_signals/identity_counter_upper_bound''
           = Some e
       \<and> snd (validateBase env v p) = [VerifyRootCall (PubSignals p ! IdStateRoot)]
       \<and> (\<forall>k. k \<noteq> ''pub_signals/identity_counter_upper_bound'' \<longrightarrow>
              fieldError (fst (validateBase env v p)) k
                = (case map_of (allErrors env v (PubSignals p) (rv (PubSignals p ! IdStateRoot))) k of
                     Some (Some e') \<Rightarrow> Some e' | _ \<Rightarrow> None))"
proof -
  let ?all = "allErrors env v (PubSignals p) (rv (PubSignals p ! IdStateRoot))"
  have ids: "validateIdentitiesInputs env v (PubSignals p)
      = Returns [(''pub_signals/identity_counter_upper_bound'', Some e)]"
    using assms(2) assms(5) by (simp add: validateIdentitiesInputs_def)
  from validateBase_ok[OF assms(1-4), of env] ids
  have d: "distinct (map fst (?all @ [(''pub_signals/identity_counter_upper_bound'', Some e)]))"
    and r: "validateBase env v p
      = (Returns (Filter (?all @ [(''pub_signals/identity_counter_upper_bound'', Some e)])),
         [VerifyRootCall (PubSignals p ! IdStateRoot)])"
    by auto
  have fresh: "''pub_signals/identity_counter_upper_bound'' \<notin> fst ` set ?all"
    using d by auto
  then have k1: "map_of (?all @ [(''pub_signals/identity_counter_upper_bound'', Some e)])
            ''pub_signals/identity_counter_upper_bound'' = Some (Some e)"
    by (simp add: map_add_Some_iff map_of_eq_None_iff)
  have k2: "map_of (?all @ [(''pub_signals/identity_counter_upper_bound'', Some e)]) k
            = map_of ?all k" if "k \<noteq> ''pub_signals/identity_counter_upper_bound''" for k
    using that by (simp add: map_add_def split: option.splits)
  show ?thesis
    unfolding r fst_conv snd_conv fieldError_Filter[OF d] using k1 k2 by simp
qed

theorem counter_parse_error_in_field_report_witness:
  "ParseInt (PubSignals (exampleProof\<lparr>PubSignals := exampleSignals[16 := ''abc'']\<rparr>)
       ! IdentityCounterUpperBound) = Inl (ErrSyntax ''abc'')
   \<and> fieldError (fst (validateBase exampleEnv exampleVerifier
          (exampleProof\<lparr>PubSignals := exampleSignals[16 := ''abc'']\<rparr>)))
        ''pub_signals/identity_counter_upper_bound'' = Some (ErrSyntax ''abc'')"
proof -
  let ?p = "exampleProof\<lparr>PubSignals := exampleSignals[16 := ''abc'']\<rparr>"
  have h1: "Proof ?p \<noteq> None" by (simp add: exampleProof_def)
  have h2: "length (PubSignals ?p) = 21" by (simp add: exampleSignals_def)
  have h3: "rootVerifier (opts exampleVerifier) = Some (\<lambda>root. None)"
    by (simp add: exampleVerifier_def exampleOptions_def)
  have h4: "\<not> errors_Is ((\<lambda>root. None) (PubSignals ?p ! IdStateRoot)) ErrContractCall"
    by simp
  have h5: "ParseInt (PubSignals ?p ! IdentityCounterUpperBound) = Inl (ErrSyntax ''abc'')"
    by (simp add: example_defs)
  from counter_parse_error_in_field_report[OF h1 h2 h3 h4 h5, of exampleEnv] h5
  show ?thesis by simp
qed

text \<open>
  The claim as stated fails: with the counter signal \<open>abc\<close> and the selector \<open>40\<close>,
  \<open>validateBase\<close> calls the root verifier and returns one aggregated report, in which
  the parse error stands under its field path beside the field error of the selector.
\<close>

theorem counter_parse_error_aggregated:
  "ParseInt (PubSignals (exampleProof\<lparr>PubSignals := exampleSignals[16 := ''abc'', 12 := ''40'']\<rparr>)
       ! IdentityCounterUpperBound) = Inl (ErrSyntax ''abc'')
   \<and> validateBase exampleEnv exampleVerifier
        (exampleProof\<lparr>PubSignals := exampleSignals[16 := ''abc'', 12 := ''40'']\<rparr>)
     = (Returns (Some (Errors [(''pub_signals/selector'', ErrInInvalid),
                               (''pub_signals/identity_counter_upper_bound'', ErrSyntax ''abc'')])),
        [VerifyRootCall ''1295155051''])"
  by (simp add: check_defs example_defs)

section \<open>The birth date bound\<close>





section \<open>The root verifier and the pairing check\<close>






lemma validateBase_calls:
  "VerifyGroth16Call q k \<notin> set (snd (validateBase env v p))"
  by (auto simp: validateBase_def Let_def split: option.splits exec.splits)

text \<open>
  Claim C6. For every proof, verifier and list of overrides: if \<open>validateBase\<close> on the
  merged configuration returns an error (a shape report, a field report, or the root
  verifier's failure), \<open>VerifyProof\<close> returns that error and never calls
  \<open>VerifyGroth16\<close>; the pairing check is called exactly when the validation returned no
  error.
\<close>

theorem VerifyGroth16_only_after_validation:
  "(fst (validateBase env \<lparr>verificationKey = verificationKey v,
                           opts = mergeOptions (opts v) options\<rparr> p) = Returns (Some e)
      \<longrightarrow> fst (VerifyProof env v p options) = Returns (Some e)
        \<and> (\<forall>q k. VerifyGroth16Call q k \<notin> set (snd (snd (VerifyProof env v p options)))))
   \<and> ((\<exists>q k. VerifyGroth16Call q k \<in> set (snd (snd (VerifyProof env v p options))))
        = (fst (validateBase env \<lparr>verificationKey = verificationKey v,
                                  opts = mergeOptions (opts v) options\<rparr> p) = Returns None))"
proof -
  let ?v2 = "\<lparr>verificationKey = verificationKey v, opts = mergeOptions (opts v) options\<rparr>"
  obtain r calls where vb: "validateBase env ?v2 p = (r, calls)"
    by (cases "validateBase env ?v2 p")
  have nocall: "\<And>q k. VerifyGroth16Call q k \<notin> set calls"
    using validateBase_calls[of _ _ env ?v2 p] vb by simp
  show ?thesis
    using vb nocall
    by (cases r; cases "VerifyGroth16 env p (verificationKey v)")
       (auto simp: VerifyProof_def split: option.splits)
qed

theorem VerifyGroth16_only_after_validation_witness:
  "fst (validateBase exampleEnv
         \<lparr>verificationKey = verificationKey exampleVerifier,
            opts = mergeOptions (opts exampleVerifier) []\<rparr> exampleProof)
     = Returns (Some (Errors [(''pub_signals/timestamp_upper_bound'', ErrOther ''date is too late'')]))
   \<and> fst (VerifyProof exampleEnv exampleVerifier exampleProof [])
     = Returns (Some (Errors [(''pub_signals/timestamp_upper_bound'', ErrOther ''date is too late'')]))
   \<and> (\<forall>q k. VerifyGroth16Call q k
          \<notin> set (snd (snd (VerifyProof exampleEnv exampleVerifier exampleProof []))))"
proof -
  have v: "\<lparr>verificationKey = verificationKey exampleVerifier,
            opts = mergeOptions (opts exampleVerifier) []\<rparr> = exampleVerifier"
    by (simp add: mergeOptions_def)
  have h: "fst (validateBase exampleEnv
         \<lparr>verificationKey = verificationKey exampleVerifier,
            opts = mergeOptions (opts exampleVerifier) []\<rparr> exampleProof)
     = Returns (Some (Errors [(''pub_signals/timestamp_upper_bound'', ErrOther ''date is too late'')]))"
    unfolding v by (simp add: example_validateBase)
  from VerifyGroth16_only_after_validation[of exampleEnv exampleVerifier "[]" exampleProof
      "Errors [(''pub_signals/timestamp_upper_bound'', ErrOther ''date is too late'')]"] h
  show ?thesis by blast
qed

section \<open>The citizenship codes\<close>

lemma citizenship_check_set:
  assumes "set cs = set cs'"
  shows "validateOnOptSet x (VSlice (map VString cs)) (In (map VString cs))
       = validateOnOptSet x (VSlice (map VString cs')) (In (map VString cs'))"
proof -
  have e: "(cs = []) = (cs' = [])" using assms by (metis set_empty)
  have "set (map VString cs) = set (map VString cs')" using assms by simp
  then have "In (map VString cs) = In (map VString cs')"
    by (intro ext) (simp only: In_def)
  with e show ?thesis
    by (simp add: validateOnOptSet_def When_def)
qed

lemma cErr_citizenships: "cErr (v\<lparr>opts := (opts v)\<lparr>citizenships := c\<rparr>\<rparr>) = cErr v"
  by (intro ext) (simp add: cErr_def)

lemma tErr_citizenships: "tErr env (v\<lparr>opts := (opts v)\<lparr>citizenships := c\<rparr>\<rparr>) = tErr env v"
  by (intro ext) (simp add: tErr_def)

lemma ids_citizenships:
  "validateIdentitiesInputs env (v\<lparr>opts := (opts v)\<lparr>citizenships := c\<rparr>\<rparr>) s
   = validateIdentitiesInputs env v s"
  unfolding validateIdentitiesInputs_def cErr_citizenships tErr_citizenships ..

lemma allErrors_citizenships:
  assumes "set cs = set cs'"
  shows "allErrors env (v\<lparr>opts := (opts v)\<lparr>citizenships := map VString cs\<rparr>\<rparr>) s err
       = allErrors env (v\<lparr>opts := (opts v)\<lparr>citizenships := map VString cs'\<rparr>\<rparr>) s err"
  using citizenship_check_set[OF assms]
  by (simp add: allErrors_def allowedBirthDate_def)

lemma validateBase_citizenships:
  assumes "set cs = set cs'"
  shows "validateBase env (v\<lparr>opts := WithCitizenships cs (opts v)\<rparr>) p
       = validateBase env (v\<lparr>opts := WithCitizenships cs' (opts v)\<rparr>) p"
proof -
  have r: "rootVerifier (opts (v\<lparr>opts := (opts v)\<lparr>citizenships := c\<rparr>\<rparr>)) = rootVerifier (opts v)"
    for c by simp
  show ?thesis
    unfolding validateBase_def WithCitizenships_def ids_citizenships r
      allErrors_citizenships[OF assms, of env v] ..
qed

text \<open>
  Claim C7. Two lists of citizenship codes with the same set of elements (one a
  permutation of the other, with or without repeated codes) give the same validation
  result for every proof, whether the mutator is applied to the stored options or
  passed as the last override of a call: the whole outcome of \<open>validateBase\<close> and of
  \<open>VerifyProof\<close> is the same, and so the citizenship check.
\<close>

theorem citizenships_order_and_duplicates_irrelevant:
  assumes "set cs = set cs'"
  shows "validateBase env (v\<lparr>opts := WithCitizenships cs (opts v)\<rparr>) p
       = validateBase env (v\<lparr>opts := WithCitizenships cs' (opts v)\<rparr>) p
     \<and> VerifyProof env v p (options @ [WithCitizenships cs])
       = VerifyProof env v p (options @ [WithCitizenships cs'])"
proof -
  let ?w = "\<lparr>verificationKey = verificationKey v, opts = mergeOptions (opts v) options\<rparr>"
  have b: "\<lparr>verificationKey = verificationKey v,
            opts = mergeOptions (opts v) (options @ [WithCitizenships c])\<rparr>
         = ?w\<lparr>opts := WithCitizenships c (opts ?w)\<rparr>" for c
    by (simp add: mergeOptions_def)
  show ?thesis
    using validateBase_citizenships[OF assms, of env v p]
      validateBase_citizenships[OF assms, of env ?w p]
    unfolding VerifyProof_def Let_def b by simp
qed

theorem citizenships_order_and_duplicates_irrelevant_witness:
  "set [''UKR'', ''USA''] = set [''USA'', ''UKR'', ''USA'']
   \<and> validateBase exampleEnv
        (exampleVerifier\<lparr>opts := WithCitizenships [''UKR'', ''USA''] (opts exampleVerifier)\<rparr>)
        exampleProof
     = validateBase exampleEnv
        (exampleVerifier\<lparr>opts := WithCitizenships [''USA'', ''UKR'', ''USA''] (opts exampleVerifier)\<rparr>)
        exampleProof"
proof -
  have h: "set [''UKR'', ''USA''] = set [''USA'', ''UKR'', ''USA'']" by auto
  from citizenships_order_and_duplicates_irrelevant[OF h, of exampleEnv exampleVerifier
      exampleProof "[]"] h
  show ?thesis by blast
qed

section \<open>Overrides of a call\<close>



end
